theory Spec2Isabelle
  imports Complex_Main "HOL-Library.Char_ord" "HOL-Library.List_Lexorder" "HOL-Library.Multiset"
begin

section \<open>Python strings\<close>

text \<open>
  A Python \<open>str\<close> is modelled as a \<open>string\<close> whose characters are the code points
  0..255. On these code points \<open>str.strip()\<close> removes the characters for which
  \<open>str.isspace\<close> holds (9..13, 28..32, 133 and 160), and \<open>str.lower()\<close> adds 32 to the
  upper-case letters (A..Z, and 192..222 without the multiplication sign 215).
\<close>

definition py_isspace :: "char \<Rightarrow> bool" where
  "py_isspace c =
     (let n = (of_char c :: nat)
      in (9 \<le> n \<and> n \<le> 13) \<or> (28 \<le> n \<and> n \<le> 32) \<or> n = 133 \<or> n = 160)"

definition lower_char :: "char \<Rightarrow> char" where
  "lower_char c =
     (let n = (of_char c :: nat)
      in if (65 \<le> n \<and> n \<le> 90) \<or> (192 \<le> n \<and> n \<le> 222 \<and> n \<noteq> 215)
         then char_of (n + 32) else c)"

definition py_strip :: "string \<Rightarrow> string" where
  "py_strip s = rev (dropWhile py_isspace (rev (dropWhile py_isspace s)))"

text \<open>A string that \<open>strip\<close> leaves alone: empty, or with no whitespace at either end.\<close>

definition trimmed :: "string \<Rightarrow> bool" where
  "trimmed s = (s = [] \<or> (\<not> py_isspace (hd s) \<and> \<not> py_isspace (last s)))"

definition py_lower :: "string \<Rightarrow> string" where
  "py_lower s = map lower_char s"

text \<open>\<open>s.replace(a, b)\<close> for one-character \<open>a\<close> and \<open>b\<close>; \<open>s.replace(a, "")\<close>.\<close>

definition replace_char :: "char \<Rightarrow> char \<Rightarrow> string \<Rightarrow> string" where
  "replace_char a b s = map (\<lambda>c. if c = a then b else c) s"

definition remove_char :: "char \<Rightarrow> string \<Rightarrow> string" where
  "remove_char a s = filter (\<lambda>c. c \<noteq> a) s"

section \<open>Header normalisation and the rename table\<close>

text \<open>
  \<^verbatim>\<open>df.columns = [c.strip().lower().replace(" ", "_") for c in df.columns]\<close>
  followed by \<^verbatim>\<open>df.rename(columns={...})\<close>, which maps a label that is a key of the
  table and leaves every other label as it is. Both entry points carry the same two
  statements.
\<close>

definition clean_header :: "string \<Rightarrow> string" where
  "clean_header c = replace_char CHR '' '' CHR ''_'' (py_lower (py_strip c))"

definition rename_table :: "(string \<times> string) list" where
  "rename_table =
     [(''email_id'', ''email''),
      (''phone_number'', ''phone''),
      (''langauge'', ''language''),
      (''tds_applicability'', ''tds_applicable'')]"

definition rename_label :: "string \<Rightarrow> string" where
  "rename_label c = (case map_of rename_table c of Some n \<Rightarrow> n | None \<Rightarrow> c)"

definition normalize_header :: "string \<Rightarrow> string" where
  "normalize_header h = rename_label (clean_header h)"

definition normalize_columns :: "(string \<times> 'a) list \<Rightarrow> (string \<times> 'a) list" where
  "normalize_columns df = map (\<lambda>(label, s). (normalize_header label, s)) df"

section \<open>Python's \<open>float(str)\<close>\<close>

text \<open>
  The grammar of \<open>float()\<close> on a string: surrounding whitespace is stripped (tab to
  carriage return, the space, and the code points 133 and 160, which \<open>float()\<close> turns
  into spaces first; not the separators 28..31 that \<open>str.strip()\<close> removes), a sign is
  optional, then \<open>inf\<close>, \<open>infinity\<close> or \<open>nan\<close> in any case, or a decimal number
  \<open>[digitpart] "." digitpart | digitpart ["."]\<close> with an optional exponent
  \<open>("e" | "E") [sign] digitpart\<close>, where a \<open>digitpart\<close> is digits with single underscores
  between them. The value is kept as the rational number the literal denotes: rounding to
  binary64 and overflow to infinity are not modelled.
\<close>

datatype pyfloat = Finite rat | PosInf | NegInf | NaN

definition float_isspace :: "char \<Rightarrow> bool" where
  "float_isspace c =
     (let n = (of_char c :: nat)
      in (9 \<le> n \<and> n \<le> 13) \<or> n = 32 \<or> n = 133 \<or> n = 160)"

definition float_strip :: "string \<Rightarrow> string" where
  "float_strip s = rev (dropWhile float_isspace (rev (dropWhile float_isspace s)))"

definition is_digit :: "char \<Rightarrow> bool" where
  "is_digit c = (let n = (of_char c :: nat) in 48 \<le> n \<and> n \<le> 57)"

definition digit_val :: "char \<Rightarrow> nat" where
  "digit_val c = of_char c - 48"

text \<open>\<open>digits_loop v k s\<close>: value and number of the digits read so far, and the rest.\<close>

fun digits_loop :: "nat \<Rightarrow> nat \<Rightarrow> string \<Rightarrow> nat \<times> nat \<times> string" where
  "digits_loop v k [] = (v, k, [])"
| "digits_loop v k [c] =
     (if is_digit c then (10 * v + digit_val c, Suc k, []) else (v, k, [c]))"
| "digits_loop v k (c # d # ds) =
     (if is_digit c then digits_loop (10 * v + digit_val c) (Suc k) (d # ds)
      else if c = CHR ''_'' \<and> is_digit d then digits_loop (10 * v + digit_val d) (Suc k) ds
      else (v, k, c # d # ds))"

definition digitpart :: "string \<Rightarrow> (nat \<times> nat \<times> string) option" where
  "digitpart s =
     (case s of
        [] \<Rightarrow> None
      | c # cs \<Rightarrow> if is_digit c then Some (digits_loop (digit_val c) 1 cs) else None)"

text \<open>An optional sign: \<open>True\<close> for a minus.\<close>

definition take_sign :: "string \<Rightarrow> bool \<times> string" where
  "take_sign s =
     (case s of
        [] \<Rightarrow> (False, [])
      | c # cs \<Rightarrow>
          if c = CHR ''-'' then (True, cs)
          else if c = CHR ''+'' then (False, cs)
          else (False, c # cs))"

text \<open>The mantissa: integer part, fraction digits as a number, their count, and the rest.\<close>

definition mantissa :: "string \<Rightarrow> (nat \<times> nat \<times> nat \<times> string) option" where
  "mantissa s =
     (case digitpart s of
        Some (ip, _, r) \<Rightarrow>
          (case r of
             [] \<Rightarrow> Some (ip, 0, 0, [])
           | c # r' \<Rightarrow>
               if c = CHR ''.'' then
                 (case digitpart r' of
                    Some (fp, k, r'') \<Rightarrow> Some (ip, fp, k, r'')
                  | None \<Rightarrow> Some (ip, 0, 0, r'))
               else Some (ip, 0, 0, c # r'))
      | None \<Rightarrow>
          (case s of
             [] \<Rightarrow> None
           | c # r' \<Rightarrow>
               if c = CHR ''.'' then
                 (case digitpart r' of
                    Some (fp, k, r'') \<Rightarrow> Some (0, fp, k, r'')
                  | None \<Rightarrow> None)
               else None))"

text \<open>The exponent, as a power of ten: nothing left, or \<open>e\<close>, a sign and a digitpart.\<close>

definition exponent :: "string \<Rightarrow> rat option" where
  "exponent s =
     (case s of
        [] \<Rightarrow> Some 1
      | c # cs \<Rightarrow>
          if c = CHR ''e'' \<or> c = CHR ''E'' then
            (case take_sign cs of
               (neg, ds) \<Rightarrow>
                 (case digitpart ds of
                    Some (e, _, []) \<Rightarrow> Some (if neg then 1 / 10 ^ e else 10 ^ e)
                  | _ \<Rightarrow> None))
          else None)"

definition py_float :: "string \<Rightarrow> pyfloat option" where
  "py_float s =
     (case take_sign (float_strip s) of
        (neg, t) \<Rightarrow>
          if py_lower t = ''inf'' \<or> py_lower t = ''infinity''
            then Some (if neg then NegInf else PosInf)
          else if py_lower t = ''nan'' then Some NaN
          else
            (case mantissa t of
               None \<Rightarrow> None
             | Some (ip, fp, k, r) \<Rightarrow>
                 (case exponent r of
                    None \<Rightarrow> None
                  | Some p \<Rightarrow>
                      let m = (of_nat ip + of_nat fp / 10 ^ k) * p
                      in Some (Finite (if neg then - m else m)))))"

section \<open>Cells, series and frames\<close>

text \<open>
  A cell of a \<open>DataFrame\<close>: missing (NaN, an empty CSV cell), text, a number, a boolean
  or a date. \<open>pd.read_csv\<close> hands over text and missing cells, and numbers or booleans in
  the columns it has inferred as such. A frame is the list of its labelled columns, in
  order; after header normalisation two columns may carry the same label. The number of
  rows is the length of the first column (\<open>read_csv\<close> never returns a frame without
  columns).
\<close>

datatype cell = Missing | Text string | Number pyfloat | Flag bool | Date int nat nat

type_synonym series = "cell list"

type_synonym frame = "(string \<times> series) list"

datatype error =
    KeyError string
  | AttributeError
  | ValueError
  | ReadError string
  | SinkError string

definition columns :: "frame \<Rightarrow> string list" where
  "columns df = map fst df"

definition nrows :: "frame \<Rightarrow> nat" where
  "nrows df = (case df of [] \<Rightarrow> 0 | (_, s) # _ \<Rightarrow> length s)"

text \<open>
  \<open>df[c]\<close> where a \<open>Series\<close> is needed (\<open>.astype(str).str\<close> follows): a \<open>KeyError\<close>
  when no column is labelled \<open>c\<close>; when several are, \<open>df[c]\<close> is a \<open>DataFrame\<close> and the
  \<open>.str\<close> accessor raises an \<open>AttributeError\<close>.
\<close>

definition getitem :: "frame \<Rightarrow> string \<Rightarrow> error + series" where
  "getitem df c =
     (case filter (\<lambda>(label, _). label = c) df of
        [] \<Rightarrow> Inl (KeyError c)
      | [(_, s)] \<Rightarrow> Inr s
      | _ \<Rightarrow> Inl AttributeError)"

text \<open>
  \<open>df[c] = v\<close>: every column labelled \<open>c\<close> is replaced; a new label is appended.
\<close>

definition setitem :: "frame \<Rightarrow> string \<Rightarrow> series \<Rightarrow> frame" where
  "setitem df c v =
     (if c \<in> set (columns df)
      then map (\<lambda>(label, s). if label = c then (label, v) else (label, s)) df
      else df @ [(c, v)])"

section \<open>The type coercer\<close>

text \<open>
  \<^verbatim>\<open>.astype(str).str.lower().map({'yes': True, 'no': False})\<close>, for one cell. The string
  of a cell that is not text (\<open>'nan'\<close>, the digits of a number, \<open>'True'\<close>, \<open>'False'\<close>, an ISO
  date) is no key of the table in any case of its letters, and \<open>map\<close> gives NaN for a
  value that is no key.
\<close>

definition tds_table :: "(string \<times> bool) list" where
  "tds_table = [(''yes'', True), (''no'', False)]"

fun bool_of_cell :: "cell \<Rightarrow> cell" where
  "bool_of_cell (Text s) =
     (case map_of tds_table (py_lower s) of Some b \<Rightarrow> Flag b | None \<Rightarrow> Missing)"
| "bool_of_cell _ = Missing"

text \<open>
  \<^verbatim>\<open>.astype(str).str.replace(',', '').astype(float)\<close>, for one cell and for a column
  (the first cell that does not parse raises). The string of a missing cell is \<open>'nan'\<close>,
  which parses as NaN; the string of a number has no comma and parses back to the number;
  \<open>'True'\<close>, \<open>'False'\<close> and a date's string do not parse.
\<close>

definition cell_of_float :: "pyfloat \<Rightarrow> cell" where
  "cell_of_float f = (case f of NaN \<Rightarrow> Missing | _ \<Rightarrow> Number f)"

fun float_of_cell :: "cell \<Rightarrow> error + cell" where
  "float_of_cell (Text s) =
     (case py_float (remove_char CHR '','' s) of
        Some f \<Rightarrow> Inr (cell_of_float f)
      | None \<Rightarrow> Inl ValueError)"
| "float_of_cell Missing = Inr Missing"
| "float_of_cell (Number f) = Inr (cell_of_float f)"
| "float_of_cell (Flag b) = Inl ValueError"
| "float_of_cell (Date y m d) = Inl ValueError"

fun astype_float :: "series \<Rightarrow> error + series" where
  "astype_float [] = Inr []"
| "astype_float (c # cs) =
     (case float_of_cell c of
        Inl e \<Rightarrow> Inl e
      | Inr v \<Rightarrow> (case astype_float cs of Inl e \<Rightarrow> Inl e | Inr vs \<Rightarrow> Inr (v # vs)))"

definition numeric_columns :: "string list" where
  "numeric_columns = [''amount'', ''tds'', ''payable'', ''net_payable'']"

text \<open>The loop over \<open>numeric_columns\<close> of the dashboard (lines 89 to 91).\<close>

fun coerce_numeric :: "string list \<Rightarrow> frame \<Rightarrow> error + frame" where
  "coerce_numeric [] df = Inr df"
| "coerce_numeric (col # cols) df =
     (if col \<in> set (columns df) then
        (case getitem df col of
           Inl e \<Rightarrow> Inl e
         | Inr s \<Rightarrow>
             (case astype_float s of
                Inl e \<Rightarrow> Inl e
              | Inr v \<Rightarrow> coerce_numeric cols (setitem df col v)))
      else coerce_numeric cols df)"

text \<open>
  \<^verbatim>\<open>df['tds_applicable'] = df['tds_applicable'].astype(str).str.lower().map(...)\<close>:
  unguarded in the dashboard (line 86), behind \<open>if 'tds_applicable' in df.columns\<close> in the
  command-line uploader (lines 41 and 42).
\<close>

definition coerce_tds_applicable :: "frame \<Rightarrow> error + frame" where
  "coerce_tds_applicable df =
     (case getitem df ''tds_applicable'' of
        Inl e \<Rightarrow> Inl e
      | Inr s \<Rightarrow> Inr (setitem df ''tds_applicable'' (map bool_of_cell s)))"

section \<open>The world of an upload\<close>

text \<open>
  What the scripts call and do not define: whether a path exists, \<open>pd.read_csv\<close> (which
  may raise), \<open>pd.to_datetime(s, dayfirst=True).dt.date\<close> on a column (\<open>None\<close> when it
  raises), and \<open>create_engine\<close> with \<open>df.to_sql('payouts', engine, if_exists='append')\<close>,
  which appends the frame to the store or raises and leaves the store as it was.
\<close>

record ('f, 'db) world =
  path_exists :: "'f \<Rightarrow> bool"
  read_csv :: "'f \<Rightarrow> error + frame"
  to_datetime :: "series \<Rightarrow> series option"
  to_sql :: "frame \<Rightarrow> 'db \<Rightarrow> error + 'db"

section \<open>The dashboard's upload form\<close>

datatype notice =
    Please_upload
  | Date_warning
  | Uploaded nat string
  | Upload_failed error

text \<open>
  Lines 93 to 97: the date column, inside its own \<open>try\<close> with a bare \<open>except\<close>, so that
  any failure leaves the column as it is and shows the warning.
\<close>

definition coerce_date :: "(series \<Rightarrow> series option) \<Rightarrow> frame \<Rightarrow> frame \<times> notice list" where
  "coerce_date to_dt df =
     (if ''transaction_date'' \<in> set (columns df) then
        (case getitem df ''transaction_date'' of
           Inl e \<Rightarrow> (df, [Date_warning])
         | Inr s \<Rightarrow>
             (case to_dt s of
                None \<Rightarrow> (df, [Date_warning])
              | Some v \<Rightarrow> (setitem df ''transaction_date'' v, [])))
      else (df, []))"

definition tag_month :: "string \<Rightarrow> frame \<Rightarrow> frame" where
  "tag_month m df = setitem df ''month'' (replicate (nrows df) (Text m))"

text \<open>Lines 78 to 99: from the frame read to the frame handed to \<open>to_sql\<close>.\<close>

definition dashboard_clean ::
  "(series \<Rightarrow> series option) \<Rightarrow> string \<Rightarrow> frame \<Rightarrow> error + frame \<times> notice list" where
  "dashboard_clean to_dt upload_month df0 =
     (let df = normalize_columns df0 in
      case coerce_tds_applicable df of
        Inl e \<Rightarrow> Inl e
      | Inr df1 \<Rightarrow>
          (case coerce_numeric numeric_columns df1 of
             Inl e \<Rightarrow> Inl e
           | Inr df2 \<Rightarrow>
               (case coerce_date to_dt df2 of
                  (df3, warnings) \<Rightarrow> Inr (tag_month upload_month df3, warnings))))"

text \<open>
  Lines 71 to 103, when the form is submitted: the store after the submission and the
  notices shown. \<open>uploaded_file\<close> is \<open>None\<close> when no file was chosen.
\<close>

definition upload_form ::
  "('f, 'db) world \<Rightarrow> 'f option \<Rightarrow> string \<Rightarrow> 'db \<Rightarrow> 'db \<times> notice list" where
  "upload_form w uploaded_file upload_month db =
     (case uploaded_file of
        None \<Rightarrow> (db, [Please_upload])
      | Some file \<Rightarrow>
          if upload_month = [] then (db, [Please_upload])
          else
            (case read_csv w file of
               Inl e \<Rightarrow> (db, [Upload_failed e])
             | Inr df0 \<Rightarrow>
                 (case dashboard_clean (to_datetime w) upload_month df0 of
                    Inl e \<Rightarrow> (db, [Upload_failed e])
                  | Inr (df, warnings) \<Rightarrow>
                      (case to_sql w df db of
                         Inl e \<Rightarrow> (db, warnings @ [Upload_failed e])
                       | Inr db' \<Rightarrow> (db', warnings @ [Uploaded (nrows df) upload_month])))))"

section \<open>The command-line uploader\<close>

datatype cli_output =
    No_db_url
  | Usage
  | File_not_found string
  | Uploaded_from nat string string
  | Upload_failed_with error
  | Traceback error

record 'db cli_exit =
  exit_code :: nat
  printed :: "cli_output list"
  store :: "'db"

text \<open>Lines 31 to 43: from the frame read to the frame handed to \<open>to_sql\<close>.\<close>

definition cli_clean :: "string \<Rightarrow> frame \<Rightarrow> error + frame" where
  "cli_clean month_tag df0 =
     (let df = normalize_columns df0 in
      if ''tds_applicable'' \<in> set (columns df) then
        (case coerce_tds_applicable df of
           Inl e \<Rightarrow> Inl e
         | Inr df1 \<Rightarrow> Inr (tag_month month_tag df1))
      else Inr (tag_month month_tag df))"

text \<open>
  The whole script. \<open>sys.exit(1)\<close> ends it with status 1; an exception that nothing
  catches (from \<open>read_csv\<close> or the cleaning) ends it with a traceback and status 1;
  reaching the end of the script ends it with status 0.
\<close>

definition cli_main ::
  "(string, 'db) world \<Rightarrow> string option \<Rightarrow> string list \<Rightarrow> 'db \<Rightarrow> 'db cli_exit" where
  "cli_main w supabase_db_url argv db =
     (if supabase_db_url = None \<or> supabase_db_url = Some [] then
        \<lparr>exit_code = 1, printed = [No_db_url], store = db\<rparr>
      else if length argv \<noteq> 3 then
        \<lparr>exit_code = 1, printed = [Usage], store = db\<rparr>
      else
        let csv_file = argv ! 1; month_tag = argv ! 2 in
        if \<not> path_exists w csv_file then
          \<lparr>exit_code = 1, printed = [File_not_found csv_file], store = db\<rparr>
        else
          (case read_csv w csv_file of
             Inl e \<Rightarrow> \<lparr>exit_code = 1, printed = [Traceback e], store = db\<rparr>
           | Inr df0 \<Rightarrow>
               (case cli_clean month_tag df0 of
                  Inl e \<Rightarrow> \<lparr>exit_code = 1, printed = [Traceback e], store = db\<rparr>
                | Inr df \<Rightarrow>
                    (case to_sql w df db of
                       Inr db' \<Rightarrow>
                         \<lparr>exit_code = 0,
                          printed = [Uploaded_from (nrows df) csv_file month_tag],
                          store = db'\<rparr>
                     | Inl e \<Rightarrow>
                         \<lparr>exit_code = 0, printed = [Upload_failed_with e], store = db\<rparr>))))"


section \<open>The record filter chain\<close>

text \<open>
  A row of the table \<open>payouts\<close> as \<open>pd.read_sql\<close> returns it, with the columns the
  filters and the chart read: the three identifiers and the month are text columns
  (\<open>None\<close> for NULL), \<open>tds\<close> and \<open>net_payable\<close> are numeric columns (\<open>None\<close> for NaN),
  \<open>transaction_id\<close> is text or NULL. The frame is the list of its rows, in order.
\<close>

record payout =
  author_id :: "string option"
  user_id :: "string option"
  email :: "string option"
  tds :: "rat option"
  net_payable :: "rat option"
  transaction_id :: "string option"
  month :: "string option"

text \<open>\<open>str(v)\<close> of a text value or of \<open>None\<close>, and the substring test \<open>a in b\<close>.\<close>

definition py_str :: "string option \<Rightarrow> string" where
  "py_str v = (case v of None \<Rightarrow> ''None'' | Some s \<Rightarrow> s)"

fun py_in :: "string \<Rightarrow> string \<Rightarrow> bool" where
  "py_in a [] = (a = [])"
| "py_in a (c # cs) = (take (length a) (c # cs) = a \<or> py_in a cs)"

text \<open>
  The frame between two filters: its rows, or the frame with neither rows nor columns.
  The latter is what \<^verbatim>\<open>df[df.apply(..., axis=1)]\<close> gives for a frame without rows:
  \<open>apply\<close> then returns an empty \<open>Series\<close> of floats, which \<open>df[...]\<close> takes as an empty
  list of column labels and not as a mask.
\<close>

datatype table = Rows "payout list" | No_columns

text \<open>The four row predicates, as the source writes them.\<close>

definition search_match :: "string \<Rightarrow> payout \<Rightarrow> bool" where
  "search_match s row =
     (py_in s (py_lower (py_str (user_id row)))
      \<or> py_in s (py_lower (py_str (email row)))
      \<or> py_in s (py_lower (py_str (author_id row))))"

definition month_isin :: "string list \<Rightarrow> payout \<Rightarrow> bool" where
  "month_isin month_range row =
     (case month row of None \<Rightarrow> False | Some m \<Rightarrow> m \<in> set month_range)"

definition tds_positive :: "payout \<Rightarrow> bool" where
  "tds_positive row = (case tds row of None \<Rightarrow> False | Some t \<Rightarrow> 0 < t)"

definition uncredited :: "payout \<Rightarrow> bool" where
  "uncredited row = (transaction_id row = None \<or> transaction_id row = Some [])"

text \<open>
  Lines 130 to 134: the text search on the frame read from the table, skipped when the
  input is empty.
\<close>

definition search_filter :: "string \<Rightarrow> payout list \<Rightarrow> table" where
  "search_filter search_input df =
     (if search_input = [] then Rows df
      else if df = [] then No_columns
      else Rows (filter (search_match (py_lower search_input)) df))"

text \<open>
  Lines 136 and 137: \<open>df['month'].isin(month_range)\<close>, skipped for an empty selection. On
  the frame without columns \<open>df['month']\<close> raises a \<open>KeyError\<close> that nothing catches.
\<close>

definition month_filter :: "string list \<Rightarrow> table \<Rightarrow> error + table" where
  "month_filter month_range t =
     (if month_range = [] then Inr t
      else
        (case t of
           No_columns \<Rightarrow> Inl (KeyError ''month'')
         | Rows df \<Rightarrow> Inr (Rows (filter (month_isin month_range) df))))"

text \<open>Lines 139 and 140: \<open>df['tds'] > 0\<close>, which is false for NaN.\<close>

definition tds_filter :: "bool \<Rightarrow> table \<Rightarrow> error + table" where
  "tds_filter show_only_tds t =
     (if show_only_tds then
        (case t of
           No_columns \<Rightarrow> Inl (KeyError ''tds'')
         | Rows df \<Rightarrow> Inr (Rows (filter tds_positive df)))
      else Inr t)"

text \<open>Lines 142 and 143: \<open>isna()\<close> or the empty string.\<close>

definition uncredited_filter :: "bool \<Rightarrow> table \<Rightarrow> error + table" where
  "uncredited_filter show_only_uncredited t =
     (if show_only_uncredited then
        (case t of
           No_columns \<Rightarrow> Inl (KeyError ''transaction_id'')
         | Rows df \<Rightarrow> Inr (Rows (filter uncredited df)))
      else Inr t)"

text \<open>Lines 128 to 143, in the order of the source; an exception ends the chain.\<close>

definition filter_chain ::
  "string \<Rightarrow> string list \<Rightarrow> bool \<Rightarrow> bool \<Rightarrow> payout list \<Rightarrow> error + table" where
  "filter_chain search_input month_range show_only_tds show_only_uncredited df =
     (case month_filter month_range (search_filter search_input df) of
        Inl e \<Rightarrow> Inl e
      | Inr t1 \<Rightarrow>
          (case tds_filter show_only_tds t1 of
             Inl e \<Rightarrow> Inl e
           | Inr t2 \<Rightarrow> uncredited_filter show_only_uncredited t2))"

section \<open>The monthly chart\<close>

text \<open>
  Line 159: \<open>df.groupby('month')['net_payable'].sum().reset_index()\<close>. The groups are the
  distinct months in ascending order, rows without a month are in no group, and the sum
  of a group skips NaN.
\<close>

definition group_keys :: "payout list \<Rightarrow> string list" where
  "group_keys df = sort (remdups (concat (map (\<lambda>row. case month row of None \<Rightarrow> [] | Some m \<Rightarrow> [m]) df)))"

definition group_sum :: "payout list \<Rightarrow> string \<Rightarrow> rat" where
  "group_sum df m =
     sum_list (concat (map (\<lambda>row. case net_payable row of None \<Rightarrow> [] | Some v \<Rightarrow> [v])
                           (filter (\<lambda>row. month row = Some m) df)))"

definition monthly_totals :: "payout list \<Rightarrow> (string \<times> rat) list" where
  "monthly_totals df = map (\<lambda>m. (m, group_sum df m)) (group_keys df)"

text \<open>
  Line 160: \<open>pd.to_datetime(chart_df['month'], format='%Y-%m')\<close>. One value either raises
  (it does not match the format, or its date is out of the range of a timestamp), or is
  one of the spellings of a missing date and becomes \<open>NaT\<close> without raising, or parses;
  \<open>strptime\<close> is that parse of one value. The column raises as soon as one value does.
\<close>

datatype 'd parse = Parse_error | NaT | Timestamp 'd

fun stamp_of :: "'d parse \<Rightarrow> 'd option" where
  "stamp_of (Timestamp d) = Some d"
| "stamp_of _ = None"

fun to_datetime_all ::
  "(string \<Rightarrow> 'd parse) \<Rightarrow> (string \<times> rat) list \<Rightarrow> ('d option \<times> rat) list option" where
  "to_datetime_all strptime [] = Some []"
| "to_datetime_all strptime ((m, v) # rest) =
     (case strptime m of
        Parse_error \<Rightarrow> None
      | p \<Rightarrow>
          (case to_datetime_all strptime rest of
             None \<Rightarrow> None
           | Some ds \<Rightarrow> Some ((stamp_of p, v) # ds)))"

text \<open>Line 161: \<open>sort_values('month')\<close>, ascending, with the \<open>NaT\<close> rows last.\<close>

definition sort_values :: "('d::linorder option \<times> rat) list \<Rightarrow> ('d option \<times> rat) list" where
  "sort_values chart_df =
     sort_key (\<lambda>r. the (fst r)) (filter (\<lambda>r. fst r \<noteq> None) chart_df)
     @ filter (\<lambda>r. fst r = None) chart_df"

datatype 'd chart = No_chart | Line_chart "('d option \<times> rat) list" | Chart_warning

text \<open>
  Lines 156 to 164, on the filtered frame: nothing when \<open>df.empty\<close> (no rows, or no
  columns); otherwise the series sorted by month, or the warning when anything inside the
  \<open>try\<close> raised.
\<close>

definition monthly_chart :: "(string \<Rightarrow> 'd::linorder parse) \<Rightarrow> table \<Rightarrow> 'd chart" where
  "monthly_chart strptime t =
     (case t of
        No_columns \<Rightarrow> No_chart
      | Rows df \<Rightarrow>
          if df = [] then No_chart
          else
            (case to_datetime_all strptime (monthly_totals df) of
               None \<Rightarrow> Chart_warning
             | Some chart_df \<Rightarrow> Line_chart (sort_values chart_df)))"

text \<open>
  The format \<open>%Y-%m\<close> on one value that is not a spelling of a missing date: four digits,
  a hyphen, and a month from 1 to 12 written with one or two digits. The result is the
  number of months since year 0, which orders the values as the dates do.
\<close>

definition year_month :: "string \<Rightarrow> nat option" where
  "year_month s =
     (case s of
        [y1, y2, y3, y4, h, m1] \<Rightarrow>
          if is_digit y1 \<and> is_digit y2 \<and> is_digit y3 \<and> is_digit y4 \<and> h = CHR ''-''
             \<and> is_digit m1 \<and> 1 \<le> digit_val m1
          then Some (12 * (1000 * digit_val y1 + 100 * digit_val y2 + 10 * digit_val y3
                            + digit_val y4) + digit_val m1 - 1)
          else None
      | [y1, y2, y3, y4, h, m1, m2] \<Rightarrow>
          if is_digit y1 \<and> is_digit y2 \<and> is_digit y3 \<and> is_digit y4 \<and> h = CHR ''-''
             \<and> is_digit m1 \<and> is_digit m2
             \<and> 1 \<le> 10 * digit_val m1 + digit_val m2 \<and> 10 * digit_val m1 + digit_val m2 \<le> 12
          then Some (12 * (1000 * digit_val y1 + 100 * digit_val y2 + 10 * digit_val y3
                            + digit_val y4) + 10 * digit_val m1 + digit_val m2 - 1)
          else None
      | _ \<Rightarrow> None)"

text \<open>
  The strings \<open>to_datetime\<close> reads as a missing date, besides the empty string; and the
  whole parse of one value. A nanosecond timestamp reaches from 1677-09-21 to 2262-04-11,
  so the first day of a month is in range from 1677-10 (month 20133) to 2262-04 (month
  27147), and \<open>to_datetime\<close> raises for a month outside.
\<close>

definition nat_strings :: "string list" where
  "nat_strings = [''NaT'', ''nat'', ''NAT'', ''nan'', ''NaN'', ''NAN'']"

definition strptime_Y_m :: "string \<Rightarrow> nat parse" where
  "strptime_Y_m s =
     (if s = [] \<or> s \<in> set nat_strings then NaT
      else
        (case year_month s of
           None \<Rightarrow> Parse_error
         | Some n \<Rightarrow> if 20133 \<le> n \<and> n \<le> 27147 then Timestamp n else Parse_error))"

text \<open>
  The chart as the specification words it, for comparison: the rows whose month does not
  parse are left out, and the others are charted.
\<close>

definition chart_excluding_unparsed ::
  "(string \<Rightarrow> 'd::linorder parse) \<Rightarrow> payout list \<Rightarrow> 'd chart" where
  "chart_excluding_unparsed strptime df =
     monthly_chart strptime
       (Rows (filter (\<lambda>row. case month row of
                               None \<Rightarrow> False
                             | Some m \<Rightarrow> (case strptime m of Timestamp d \<Rightarrow> True | _ \<Rightarrow> False))
                     df))"

section \<open>Worlds and rows to run the model on\<close>

text \<open>
  A world in which every path exists and \<open>read_csv\<close> returns the given frame, with a store
  that is the list of the frames appended so far; \<open>to_sql\<close> either appends or refuses.
\<close>

definition append_batch :: "frame \<Rightarrow> frame list \<Rightarrow> error + frame list" where
  "append_batch df db = Inr (db @ [df])"

definition refuse_batch :: "frame \<Rightarrow> frame list \<Rightarrow> error + frame list" where
  "refuse_batch df db = Inl (SinkError ''connection refused'')"

definition world_of ::
  "frame \<Rightarrow> (frame \<Rightarrow> frame list \<Rightarrow> error + frame list) \<Rightarrow> (string, frame list) world" where
  "world_of df sql =
     \<lparr>path_exists = (\<lambda>_. True), read_csv = (\<lambda>_. Inr df), to_datetime = (\<lambda>_. None),
      to_sql = sql\<rparr>"

text \<open>A row with a month and a net payable amount, and nothing else filled in.\<close>

definition chart_row :: "string \<Rightarrow> rat \<Rightarrow> payout" where
  "chart_row m v =
     \<lparr>author_id = None, user_id = None, email = None, tds = None, net_payable = Some v,
      transaction_id = None, month = Some m\<rparr>"

section \<open>Properties of header normalisation\<close>

lemma of_char_less_256: "(of_char c :: nat) < 256"
  by (cases c) (simp add: of_char_def horner_sum_eq_sum)

lemma lower_char_idem: "lower_char (lower_char c) = lower_char c"
  using of_char_less_256 [of c] by (auto simp: lower_char_def Let_def)

lemma isspace_lower_char: "py_isspace (lower_char c) = py_isspace c"
  using of_char_less_256 [of c] by (auto simp: lower_char_def py_isspace_def Let_def)

lemma strip_trimmed: "trimmed s \<Longrightarrow> py_strip s = s"
proof -
  assume t: "trimmed s"
  show ?thesis
  proof (cases "s = []")
    case True then show ?thesis by (simp add: py_strip_def)
  next
    case False
    with t have h: "\<not> py_isspace (hd s)" and l: "\<not> py_isspace (last s)"
      by (auto simp: trimmed_def)
    from False h have a: "dropWhile py_isspace s = s"
      by (cases s) auto
    from False l have b: "dropWhile py_isspace (rev s) = rev s"
      by (cases "rev s") (auto simp: last_rev [symmetric] hd_rev)
    show ?thesis by (simp add: py_strip_def a b)
  qed
qed

lemma trimmed_strip: "trimmed (py_strip s)"
proof -
  define t where "t = dropWhile py_isspace s"
  define u where "u = dropWhile py_isspace (rev t)"
  have ps: "py_strip s = rev u" by (simp add: py_strip_def t_def u_def)
  show ?thesis
  proof (cases "u = []")
    case True then show ?thesis by (simp add: ps trimmed_def)
  next
    case False
    then have hu: "\<not> py_isspace (hd u)" unfolding u_def by (rule hd_dropWhile)
    from False have tne: "t \<noteq> []" by (auto simp: u_def)
    then have ht: "\<not> py_isspace (hd t)" unfolding t_def by (rule hd_dropWhile)
    have "rev t = takeWhile py_isspace (rev t) @ u"
      by (simp add: u_def)
    then have "t = rev u @ rev (takeWhile py_isspace (rev t))"
      by (metis rev_append rev_rev_ident)
    with False have "hd t = hd (rev u)" by (metis hd_append2 rev_is_Nil_conv)
    with ht hu False show ?thesis
      by (simp add: ps trimmed_def last_rev)
  qed
qed

lemma trimmed_map:
  assumes "trimmed s" and "\<And>c. \<not> py_isspace c \<Longrightarrow> \<not> py_isspace (f c)"
  shows "trimmed (map f s)"
proof (cases "s = []")
  case True
  then show ?thesis by (simp add: trimmed_def)
next
  case False
  with assms(1) have "\<not> py_isspace (hd s)" "\<not> py_isspace (last s)"
    by (simp_all add: trimmed_def)
  then have "\<not> py_isspace (f (hd s))" "\<not> py_isspace (f (last s))"
    using assms(2) [of "hd s"] assms(2) [of "last s"] by blast+
  with False show ?thesis
    by (simp add: trimmed_def hd_map last_map)
qed

lemma space_isspace: "py_isspace CHR '' ''"
  by (simp add: py_isspace_def)

lemma lower_underscore: "lower_char CHR ''_'' = CHR ''_''"
  by (simp add: lower_char_def)

lemma clean_header_trimmed: "trimmed (clean_header h)"
proof -
  have a: "trimmed (py_lower (py_strip h))"
    unfolding py_lower_def
    by (rule trimmed_map [OF trimmed_strip]) (simp add: isspace_lower_char)
  show ?thesis
    unfolding clean_header_def replace_char_def
    by (rule trimmed_map [OF a]) (use space_isspace in auto)
qed

lemma clean_header_idem: "clean_header (clean_header h) = clean_header h"
proof -
  have "py_strip (clean_header h) = clean_header h"
    by (rule strip_trimmed [OF clean_header_trimmed])
  then have "clean_header (clean_header h)
      = replace_char CHR '' '' CHR ''_'' (py_lower (clean_header h))"
    by (simp add: clean_header_def [of "clean_header h"])
  also have "\<dots> = clean_header h"
    by (simp add: clean_header_def replace_char_def py_lower_def lower_char_idem lower_underscore)
  finally show ?thesis .
qed

lemma rename_label_cases:
  "map_of rename_table c = None \<and> rename_label c = c
   \<or> rename_label c = ''email'' \<or> rename_label c = ''phone''
   \<or> rename_label c = ''language'' \<or> rename_label c = ''tds_applicable''"
  by (simp add: rename_label_def rename_table_def)

lemma normalize_email: "normalize_header ''email'' = ''email''"
  by code_simp

lemma normalize_phone: "normalize_header ''phone'' = ''phone''"
  by code_simp

lemma normalize_language: "normalize_header ''language'' = ''language''"
  by code_simp

lemma normalize_tds_applicable: "normalize_header ''tds_applicable'' = ''tds_applicable''"
  by code_simp

text \<open>
  C4: header normalisation (strip, lower-case, spaces to underscores, then the rename
  table) is idempotent: normalising a normalised header changes nothing, for every header
  string.
\<close>

theorem normalize_header_idempotent:
  "normalize_header (normalize_header h) = normalize_header h"
proof -
  let ?c = "clean_header h"
  have n: "normalize_header h = rename_label ?c"
    by (simp add: normalize_header_def)
  from rename_label_cases [of ?c] show ?thesis
  proof (elim disjE conjE)
    assume "map_of rename_table ?c = None" "rename_label ?c = ?c"
    then show ?thesis
      by (simp add: normalize_header_def clean_header_idem)
  next
    assume "rename_label ?c = ''email''"
    then show ?thesis using normalize_email by (simp only: n)
  next
    assume "rename_label ?c = ''phone''"
    then show ?thesis using normalize_phone by (simp only: n)
  next
    assume "rename_label ?c = ''language''"
    then show ?thesis using normalize_language by (simp only: n)
  next
    assume "rename_label ?c = ''tds_applicable''"
    then show ?thesis using normalize_tds_applicable by (simp only: n)
  qed
qed

lemma canonical_headers:
  "map normalize_header [''Email ID'', ''Phone Number'', ''Langauge'', ''TDS Applicability'']
   = [''email'', ''phone'', ''language'', ''tds_applicable'']"
  by code_simp

lemma lower_char_eq_iff:
  assumes "97 \<le> (of_char d :: nat)" "(of_char d :: nat) \<le> 122"
  shows "lower_char c = d \<longleftrightarrow> c = d \<or> (of_char c :: nat) + 32 = of_char d"
proof -
  define n where "n = (of_char c :: nat)"
  define m where "m = (of_char d :: nat)"
  have cd: "(c = d) = (n = m)"
    by (simp add: n_def m_def)
  have n256: "n < 256"
    by (simp add: n_def)
  show ?thesis
  proof (cases "(65 \<le> n \<and> n \<le> 90) \<or> (192 \<le> n \<and> n \<le> 222 \<and> n \<noteq> 215)")
    case True
    then have l: "lower_char c = char_of (n + 32)"
      by (auto simp add: lower_char_def n_def Let_def)
    have "(char_of (n + 32) = d) = ((of_char (char_of (n + 32)) :: nat) = m)"
      unfolding m_def by (rule of_char_eq_iff [symmetric])
    also have "\<dots> = ((n + 32) mod 256 = m)"
      by (simp only: of_char_of)
    also have "\<dots> = (n + 32 = m)"
      using True by auto
    finally have "(lower_char c = d) = (n + 32 = m)"
      by (simp only: l)
    moreover have "n \<noteq> m"
      using True assms by (auto simp: m_def)
    ultimately show ?thesis
      unfolding cd n_def [symmetric] m_def [symmetric] by simp
  next
    case False
    then have l: "lower_char c = c"
      by (auto simp add: lower_char_def n_def Let_def)
    from False assms have "n + 32 \<noteq> m"
      by (auto simp: m_def)
    then show ?thesis
      unfolding l cd n_def [symmetric] m_def [symmetric] by simp
  qed
qed

lemma of_char_plus_32:
  "((of_char c :: nat) + 32 = of_char d) = ((of_char c :: nat) = of_char d - 32 \<and> 32 \<le> (of_char d :: nat))"
  by auto

lemma lower_y: "lower_char c = CHR ''y'' \<longleftrightarrow> c = CHR ''y'' \<or> c = CHR ''Y''"
proof -
  have "((of_char c :: nat) = 89) = (c = CHR ''Y'')"
    using of_char_eq_iff [of c "CHR ''Y''", where ?'a = nat] by simp
  then show ?thesis
    by (simp add: lower_char_eq_iff of_char_plus_32)
qed

lemma lower_e: "lower_char c = CHR ''e'' \<longleftrightarrow> c = CHR ''e'' \<or> c = CHR ''E''"
proof -
  have "((of_char c :: nat) = 69) = (c = CHR ''E'')"
    using of_char_eq_iff [of c "CHR ''E''", where ?'a = nat] by simp
  then show ?thesis
    by (simp add: lower_char_eq_iff of_char_plus_32)
qed

lemma lower_s: "lower_char c = CHR ''s'' \<longleftrightarrow> c = CHR ''s'' \<or> c = CHR ''S''"
proof -
  have "((of_char c :: nat) = 83) = (c = CHR ''S'')"
    using of_char_eq_iff [of c "CHR ''S''", where ?'a = nat] by simp
  then show ?thesis
    by (simp add: lower_char_eq_iff of_char_plus_32)
qed

lemma lower_n: "lower_char c = CHR ''n'' \<longleftrightarrow> c = CHR ''n'' \<or> c = CHR ''N''"
proof -
  have "((of_char c :: nat) = 78) = (c = CHR ''N'')"
    using of_char_eq_iff [of c "CHR ''N''", where ?'a = nat] by simp
  then show ?thesis
    by (simp add: lower_char_eq_iff of_char_plus_32)
qed

lemma lower_o: "lower_char c = CHR ''o'' \<longleftrightarrow> c = CHR ''o'' \<or> c = CHR ''O''"
proof -
  have "((of_char c :: nat) = 79) = (c = CHR ''O'')"
    using of_char_eq_iff [of c "CHR ''O''", where ?'a = nat] by simp
  then show ?thesis
    by (simp add: lower_char_eq_iff of_char_plus_32)
qed

lemma map_eq_two: "map f s = [a, b] \<longleftrightarrow> (\<exists>x y. s = [x, y] \<and> f x = a \<and> f y = b)"
  by (auto simp: map_eq_Cons_conv)

lemma map_eq_three:
  "map f s = [a, b, c] \<longleftrightarrow> (\<exists>x y z. s = [x, y, z] \<and> f x = a \<and> f y = b \<and> f z = c)"
  by (auto simp: map_eq_Cons_conv)

lemma lower_yes:
  "py_lower s = ''yes'' \<longleftrightarrow>
     (\<exists>a b c. s = [a, b, c] \<and> a \<in> {CHR ''y'', CHR ''Y''} \<and> b \<in> {CHR ''e'', CHR ''E''}
        \<and> c \<in> {CHR ''s'', CHR ''S''})"
  unfolding py_lower_def map_eq_three lower_y lower_e lower_s by blast

lemma lower_no:
  "py_lower s = ''no'' \<longleftrightarrow>
     (\<exists>a b. s = [a, b] \<and> a \<in> {CHR ''n'', CHR ''N''} \<and> b \<in> {CHR ''o'', CHR ''O''})"
  unfolding py_lower_def map_eq_two lower_n lower_o by blast

lemma bool_of_cell_True: "bool_of_cell c = Flag True \<longleftrightarrow> (\<exists>s. c = Text s \<and> py_lower s = ''yes'')"
  by (cases c) (auto simp: tds_table_def split: option.splits if_splits)

lemma bool_of_cell_False: "bool_of_cell c = Flag False \<longleftrightarrow> (\<exists>s. c = Text s \<and> py_lower s = ''no'')"
  by (cases c) (auto simp: tds_table_def split: option.splits if_splits)

lemma bool_of_cell_range: "bool_of_cell c \<in> {Flag True, Flag False, Missing}"
  by (cases c) (auto simp: tds_table_def split: option.splits if_splits)

text \<open>
  C5: the coercion of a \<open>tds_applicable\<close> cell gives true exactly for the spellings of
  \<open>yes\<close> in any case of its letters, false exactly for those of \<open>no\<close>, and the unknown
  state (a missing cell) for every other cell, the empty and the missing ones included;
  it is a total function of the cell, so no cell makes it raise.
\<close>

theorem tds_applicable_coercion:
  "(bool_of_cell c = Flag True \<longleftrightarrow>
      (\<exists>y e s. c = Text [y, e, s] \<and> y \<in> {CHR ''y'', CHR ''Y''} \<and> e \<in> {CHR ''e'', CHR ''E''}
         \<and> s \<in> {CHR ''s'', CHR ''S''}))
   \<and> (bool_of_cell c = Flag False \<longleftrightarrow>
      (\<exists>a b. c = Text [a, b] \<and> a \<in> {CHR ''n'', CHR ''N''} \<and> b \<in> {CHR ''o'', CHR ''O''}))
   \<and> bool_of_cell c \<in> {Flag True, Flag False, Missing}"
  unfolding bool_of_cell_True bool_of_cell_False lower_yes lower_no
  using bool_of_cell_range [of c] by blast

lemma tds_applicable_examples:
  "map bool_of_cell
     [Text ''Yes'', Text ''YES'', Text ''yes'', Text ''No'', Text ''Maybe'', Text [], Missing]
   = [Flag True, Flag True, Flag True, Flag False, Missing, Missing, Missing]"
  by code_simp

section \<open>Properties of the record filter chain\<close>

text \<open>
  C7: with an empty search text, an empty month selection and both checkboxes unchecked,
  the filter chain returns the record set it was given, unchanged and in the same order.
\<close>

theorem filter_chain_noop: "filter_chain [] [] False False df = Inr (Rows df)"
  by (simp add: filter_chain_def search_filter_def month_filter_def tds_filter_def
      uncredited_filter_def)

text \<open>
  Whenever the table has a row or the search is inactive, the chain raises nothing and
  keeps exactly the rows that satisfy every active predicate, in their order; a
  conjunction does not depend on the order of its parts, so neither does the result.
\<close>

lemma filter_chain_rows:
  assumes "df \<noteq> [] \<or> search_input = []"
  shows "filter_chain search_input month_range show_only_tds show_only_uncredited df
    = Inr (Rows (filter (\<lambda>row.
          (search_input = [] \<or> search_match (py_lower search_input) row)
          \<and> (month_range = [] \<or> month_isin month_range row)
          \<and> (\<not> show_only_tds \<or> tds_positive row)
          \<and> (\<not> show_only_uncredited \<or> uncredited row)) df))"
proof -
  have s: "search_filter search_input df
      = Rows (filter (\<lambda>row. search_input = [] \<or> search_match (py_lower search_input) row) df)"
    using assms by (auto simp: search_filter_def)
  have m: "\<And>xs. month_filter month_range (Rows xs)
      = Inr (Rows (filter (\<lambda>row. month_range = [] \<or> month_isin month_range row) xs))"
    by (simp add: month_filter_def)
  have t: "\<And>xs. tds_filter show_only_tds (Rows xs)
      = Inr (Rows (filter (\<lambda>row. \<not> show_only_tds \<or> tds_positive row) xs))"
    by (simp add: tds_filter_def)
  have u: "\<And>xs. uncredited_filter show_only_uncredited (Rows xs)
      = Inr (Rows (filter (\<lambda>row. \<not> show_only_uncredited \<or> uncredited row) xs))"
    by (simp add: uncredited_filter_def)
  show ?thesis
    unfolding filter_chain_def s m sum.case t u filter_filter
    by (rule arg_cong [where f = "\<lambda>xs. Inr (Rows xs)"], rule filter_cong) auto
qed

text \<open>
  C8 says that the order of two filters never affects the result. On a table without rows
  the source's order does: the active text search returns the frame without columns, on
  which the TDS filter raises a \<open>KeyError\<close> that nothing catches, while the TDS filter
  first and the search after it raise nothing.
\<close>

theorem search_then_filter_raises_on_empty_table:
  "filter_chain ''a'' [] True False [] = Inl (KeyError ''tds'')
   \<and> tds_filter True (search_filter ''a'' []) = Inl (KeyError ''tds'')
   \<and> tds_filter True (Rows []) = Inr (Rows [])
   \<and> search_filter ''a'' [] = No_columns"
  by (simp add: filter_chain_def search_filter_def month_filter_def tds_filter_def
      uncredited_filter_def)

section \<open>Properties of the monthly chart\<close>

lemma set_group_keys: "set (group_keys df) = {m. \<exists>row\<in>set df. month row = Some m}"
  by (auto simp: group_keys_def split: option.splits)

lemma mset_group_keys: "mset (group_keys df) = mset_set {m. \<exists>row\<in>set df. month row = Some m}"
proof -
  have "distinct (group_keys df)"
    by (simp add: group_keys_def)
  then have "mset_set (set (group_keys df)) = mset (group_keys df)"
    by (rule mset_set_set)
  then show ?thesis
    by (simp add: set_group_keys)
qed

lemma group_sum_skipna:
  "group_sum df m
   = sum_list (map (\<lambda>row. case net_payable row of None \<Rightarrow> 0 | Some v \<Rightarrow> v)
                   (filter (\<lambda>row. month row = Some m) df))"
  unfolding group_sum_def by (induction df) (auto split: option.splits)

lemma to_datetime_all_None:
  "(m, v) \<in> set xs \<Longrightarrow> strptime m = Parse_error \<Longrightarrow> to_datetime_all strptime xs = None"
  by (induction xs) (auto split: option.splits parse.splits)

lemma to_datetime_all_Some:
  "(\<And>m v. (m, v) \<in> set xs \<Longrightarrow> strptime m \<noteq> Parse_error) \<Longrightarrow>
   to_datetime_all strptime xs = Some (map (\<lambda>(m, v). (stamp_of (strptime m), v)) xs)"
proof (induction xs)
  case Nil
  then show ?case by simp
next
  case (Cons x xs)
  obtain m v where x: "x = (m, v)" by (cases x)
  from Cons.prems [of m v] have d: "strptime m \<noteq> Parse_error"
    by (simp add: x)
  have "\<And>m v. (m, v) \<in> set xs \<Longrightarrow> strptime m \<noteq> Parse_error"
  proof -
    fix m' v'
    assume "(m', v') \<in> set xs"
    then have "(m', v') \<in> set (x # xs)" by simp
    then show "strptime m' \<noteq> Parse_error" by (rule Cons.prems)
  qed
  then have "to_datetime_all strptime xs = Some (map (\<lambda>(m, v). (stamp_of (strptime m), v)) xs)"
    by (rule Cons.IH)
  with d show ?case by (cases "strptime m") (simp_all add: x)
qed

lemma mset_sort_values: "mset (sort_values xs) = mset xs"
proof -
  have "mset (sort_values xs)
      = filter_mset (\<lambda>r. fst r \<noteq> None) (mset xs) + filter_mset (\<lambda>r. \<not> fst r \<noteq> None) (mset xs)"
    by (simp add: sort_values_def)
  then show ?thesis
    by (simp only: multiset_partition [symmetric])
qed

text \<open>
  C3, amended: the monthly chart is all or nothing. Nothing is charted for an empty record
  set (a frame without rows, or without columns). Records without a month are in no
  group. As soon as the month of one record makes the parse raise, no record is charted,
  those with a month that parses included, and the warning is shown instead. When no month raises, every distinct month is charted exactly
  once with the sum of its \<open>net_payable\<close> (a missing amount counting as nothing): the
  months that parse in time order, followed by the months read as a missing date, which
  are charted without a date and without a warning. In every case the chart step returns,
  so it never fails the request.
\<close>

theorem monthly_chart_all_or_nothing:
  "monthly_chart strptime No_columns = No_chart
   \<and> (df = [] \<longrightarrow> monthly_chart strptime (Rows df) = No_chart)
   \<and> ((\<exists>row\<in>set df. \<exists>m. month row = Some m \<and> strptime m = Parse_error)
        \<longrightarrow> monthly_chart strptime (Rows df) = Chart_warning)
   \<and> (df \<noteq> [] \<and> (\<forall>row\<in>set df. \<forall>m. month row = Some m \<longrightarrow> strptime m \<noteq> Parse_error)
        \<longrightarrow> (\<exists>dated undated.
               monthly_chart strptime (Rows df) = Line_chart (dated @ undated)
               \<and> mset (dated @ undated)
                   = image_mset
                       (\<lambda>m. (stamp_of (strptime m),
                             sum_list (map (\<lambda>row. case net_payable row of None \<Rightarrow> 0 | Some v \<Rightarrow> v)
                                           (filter (\<lambda>row. month row = Some m) df))))
                       (mset_set {m. \<exists>row\<in>set df. month row = Some m})
               \<and> (\<forall>r\<in>set dated. fst r \<noteq> None)
               \<and> (\<forall>r\<in>set undated. fst r = None)
               \<and> sorted (map (\<lambda>r. the (fst r)) dated)))"
proof (intro conjI impI)
  show "monthly_chart strptime No_columns = No_chart"
    by (simp add: monthly_chart_def)
next
  assume "df = []"
  then show "monthly_chart strptime (Rows df) = No_chart"
    by (simp add: monthly_chart_def)
next
  assume "\<exists>row\<in>set df. \<exists>m. month row = Some m \<and> strptime m = Parse_error"
  then obtain row m where r: "row \<in> set df" "month row = Some m" "strptime m = Parse_error"
    by blast
  then have "m \<in> set (group_keys df)"
    by (auto simp: set_group_keys)
  then have "(m, group_sum df m) \<in> set (monthly_totals df)"
    by (simp add: monthly_totals_def)
  then have "to_datetime_all strptime (monthly_totals df) = None"
    using r(3) by (rule to_datetime_all_None)
  moreover from r(1) have "df \<noteq> []" by auto
  ultimately show "monthly_chart strptime (Rows df) = Chart_warning"
    by (simp add: monthly_chart_def)
next
  assume a: "df \<noteq> [] \<and> (\<forall>row\<in>set df. \<forall>m. month row = Some m \<longrightarrow> strptime m \<noteq> Parse_error)"
  let ?total = "\<lambda>m. sum_list (map (\<lambda>row. case net_payable row of None \<Rightarrow> 0 | Some v \<Rightarrow> v)
                                   (filter (\<lambda>row. month row = Some m) df))"
  let ?rows = "map (\<lambda>(m, v). (stamp_of (strptime m), v)) (monthly_totals df)"
  let ?dated = "sort_key (\<lambda>r. the (fst r)) (filter (\<lambda>r. fst r \<noteq> None) ?rows)"
  let ?undated = "filter (\<lambda>r. fst r = None) ?rows"
  have "to_datetime_all strptime (monthly_totals df) = Some ?rows"
  proof (rule to_datetime_all_Some)
    fix m v
    assume "(m, v) \<in> set (monthly_totals df)"
    then have "m \<in> set (group_keys df)"
      by (auto simp: monthly_totals_def)
    with a show "strptime m \<noteq> Parse_error"
      by (auto simp: set_group_keys)
  qed
  with a have c: "monthly_chart strptime (Rows df) = Line_chart (?dated @ ?undated)"
    by (simp add: monthly_chart_def sort_values_def)
  have rows: "?rows = map (\<lambda>m. (stamp_of (strptime m), ?total m)) (group_keys df)"
    by (simp add: monthly_totals_def group_sum_skipna o_def)
  have "mset (?dated @ ?undated) = mset ?rows"
    using mset_sort_values [of ?rows] by (simp only: sort_values_def)
  also have "\<dots> = image_mset (\<lambda>m. (stamp_of (strptime m), ?total m)) (mset (group_keys df))"
    by (simp only: rows mset_map)
  finally have m: "mset (?dated @ ?undated)
      = image_mset (\<lambda>m. (stamp_of (strptime m), ?total m))
          (mset_set {m. \<exists>row\<in>set df. month row = Some m})"
    by (simp only: mset_group_keys)
  have d: "\<forall>r\<in>set ?dated. fst r \<noteq> None"
    by simp
  have u: "\<forall>r\<in>set ?undated. fst r = None"
    by simp
  have s: "sorted (map (\<lambda>r. the (fst r)) ?dated)"
    by (rule sorted_sort_key)
  from c m d u s show "\<exists>dated undated.
      monthly_chart strptime (Rows df) = Line_chart (dated @ undated)
      \<and> mset (dated @ undated)
          = image_mset (\<lambda>m. (stamp_of (strptime m), ?total m))
              (mset_set {m. \<exists>row\<in>set df. month row = Some m})
      \<and> (\<forall>r\<in>set dated. fst r \<noteq> None)
      \<and> (\<forall>r\<in>set undated. fst r = None)
      \<and> sorted (map (\<lambda>r. the (fst r)) dated)"
    by blast
qed

lemmas strptime_eval = strptime_Y_m_def nat_strings_def year_month_def is_digit_def digit_val_def

lemma parse_2025_04: "strptime_Y_m ''2025-04'' = Timestamp 24303"
  by (simp add: strptime_eval)

lemma parse_2025_03: "strptime_Y_m ''2025-03'' = Timestamp 24302"
  by (simp add: strptime_eval)

lemma parse_April: "strptime_Y_m ''April'' = Parse_error"
  by (simp add: strptime_eval)

lemma parse_empty: "strptime_Y_m [] = NaT"
  by (simp add: strptime_eval)

lemma parse_1500_01: "strptime_Y_m ''1500-01'' = Parse_error"
  by (simp add: strptime_eval)

theorem monthly_chart_all_or_nothing_witness:
  "monthly_chart strptime_Y_m (Rows [chart_row ''2025-04'' 100, chart_row ''April'' 50])
     = Chart_warning
   \<and> (\<exists>dated undated.
         monthly_chart strptime_Y_m
           (Rows [chart_row ''2025-04'' 100, chart_row ''2025-03'' 50, chart_row [] 7])
           = Line_chart (dated @ undated)
         \<and> mset (dated @ undated)
             = image_mset
                 (\<lambda>m. (stamp_of (strptime_Y_m m),
                       sum_list (map (\<lambda>row. case net_payable row of None \<Rightarrow> 0 | Some v \<Rightarrow> v)
                                     (filter (\<lambda>row. month row = Some m)
                                        [chart_row ''2025-04'' 100, chart_row ''2025-03'' 50,
                                         chart_row [] 7]))))
                 (mset_set {m. \<exists>row\<in>set [chart_row ''2025-04'' 100, chart_row ''2025-03'' 50,
                                              chart_row [] 7]. month row = Some m})
         \<and> (\<forall>r\<in>set dated. fst r \<noteq> None)
         \<and> (\<forall>r\<in>set undated. fst r = None)
         \<and> sorted (map (\<lambda>r. the (fst r)) dated))
   \<and> monthly_chart strptime_Y_m (Rows []) = No_chart
   \<and> monthly_chart strptime_Y_m No_columns = No_chart"
  using monthly_chart_all_or_nothing
      [of strptime_Y_m "[chart_row ''2025-04'' 100, chart_row ''April'' 50]"]
    monthly_chart_all_or_nothing
      [of strptime_Y_m "[chart_row ''2025-04'' 100, chart_row ''2025-03'' 50, chart_row [] 7]"]
    monthly_chart_all_or_nothing [of strptime_Y_m "[]"]
  by (simp add: chart_row_def parse_2025_04 parse_2025_03 parse_April parse_empty)

lemma totals_april:
  "monthly_totals [chart_row ''2025-04'' 100, chart_row ''April'' 50]
   = [(''2025-04'', 100), (''April'', 50)]"
  by code_simp

lemma totals_one: "monthly_totals [chart_row ''2025-04'' 100] = [(''2025-04'', 100)]"
  by code_simp

lemma totals_empty_month:
  "monthly_totals [chart_row ''2025-04'' 100, chart_row ''2025-03'' 50, chart_row [] 7,
                   chart_row ''2025-04'' 1]
   = [([], 7), (''2025-03'', 50), (''2025-04'', 101)]"
  by code_simp

text \<open>
  An empty month does not raise: it is charted last, without a date, and the rows of one
  month are summed.
\<close>

lemma chart_with_empty_month:
  "monthly_chart strptime_Y_m
     (Rows [chart_row ''2025-04'' 100, chart_row ''2025-03'' 50, chart_row [] 7, chart_row ''2025-04'' 1])
   = Line_chart [(Some 24302, 50), (Some 24303, 101), (None, 7)]"
  by (simp add: monthly_chart_def totals_empty_month sort_values_def parse_2025_04 parse_2025_03
      parse_empty)

text \<open>
  C3 as the specification states it fails: with the months \<open>2025-04\<close> and \<open>April\<close> the
  source shows the warning and charts nothing, while leaving out the row that does not
  parse would chart the total of \<open>2025-04\<close>.
\<close>

theorem chart_drops_parseable_months:
  "monthly_chart strptime_Y_m (Rows [chart_row ''2025-04'' 100, chart_row ''April'' 50])
     = Chart_warning
   \<and> chart_excluding_unparsed strptime_Y_m [chart_row ''2025-04'' 100, chart_row ''April'' 50]
       = Line_chart [(Some 24303, 100)]"
proof -
  have "filter (\<lambda>row. case month row of
                        None \<Rightarrow> False
                      | Some m \<Rightarrow> (case strptime_Y_m m of Timestamp d \<Rightarrow> True | _ \<Rightarrow> False))
          [chart_row ''2025-04'' 100, chart_row ''April'' 50] = [chart_row ''2025-04'' 100]"
    by (simp add: chart_row_def parse_2025_04 parse_April)
  then show ?thesis
    by (simp add: monthly_chart_def chart_excluding_unparsed_def totals_april totals_one
        sort_values_def parse_2025_04 parse_April)
qed

section \<open>Properties of the type coercer and of the dashboard upload\<close>

lemmas float_eval = remove_char_def py_float_def float_strip_def float_isspace_def take_sign_def
  py_lower_def lower_char_def mantissa_def digitpart_def exponent_def is_digit_def digit_val_def
  cell_of_float_def Let_def

lemma float_1234_50: "float_of_cell (Text ''1,234.50'') = Inr (Number (Finite (2469 / 2)))"
  by (simp add: float_eval)

lemma float_abc: "float_of_cell (Text ''abc'') = Inl ValueError"
  by (simp add: float_eval)

text \<open>
  The separator 28 is whitespace for \<open>str.strip()\<close> and not for \<open>float()\<close>; blanks around
  a number are.
\<close>

lemma float_separator:
  "py_float (CHR 0x1C # ''12'') = None \<and> py_strip (CHR 0x1C # ''12'') = ''12''"
  by (simp add: float_eval py_strip_def py_isspace_def)

lemma float_blanks: "py_float '' 12 '' = Some (Finite 12)"
  by (simp add: float_eval)

lemma float_of_cell_Text:
  "(\<exists>e. float_of_cell (Text t) = Inl e) \<longleftrightarrow> py_float (remove_char CHR '','' t) = None"
  by (simp split: option.splits)

lemma astype_float_fails:
  "c \<in> set s \<Longrightarrow> float_of_cell c = Inl e0 \<Longrightarrow> \<exists>e. astype_float s = Inl e"
  by (induction s) (auto split: sum.splits)

lemma setitem_keeps:
  "c \<noteq> c' \<Longrightarrow> (c', s) \<in> set df \<Longrightarrow> (c', s) \<in> set (setitem df c v)"
proof -
  assume ne: "c \<noteq> c'" and mem: "(c', s) \<in> set df"
  have "(\<lambda>(label, s). if label = c then (label, v) else (label, s)) (c', s) = (c', s)"
    using ne by simp
  with mem have "(c', s) \<in> (\<lambda>(label, s). if label = c then (label, v) else (label, s)) ` set df"
    by (metis (no_types, lifting) image_eqI)
  with mem show ?thesis
    by (simp add: setitem_def)
qed

lemma getitem_Inr_mem:
  assumes "getitem df c = Inr s'" and "(c, s) \<in> set df"
  shows "s = s'"
proof -
  from assms(1) obtain l where f: "filter (\<lambda>(label, _). label = c) df = [(l, s')]"
    by (auto simp: getitem_def split: list.splits)
  from assms(2) have "(c, s) \<in> set (filter (\<lambda>(label, _). label = c) df)"
    by simp
  with f show ?thesis by simp
qed

lemma coerce_numeric_fails:
  "col \<in> set cols \<Longrightarrow> (col, s) \<in> set df \<Longrightarrow> c \<in> set s \<Longrightarrow> float_of_cell c = Inl e0
   \<Longrightarrow> \<exists>e. coerce_numeric cols df = Inl e"
proof (induction cols arbitrary: df)
  case Nil
  then show ?case by simp
next
  case (Cons col' cols)
  show ?case
  proof (cases "col' = col")
    case True
    from Cons.prems(2) have incols: "col \<in> set (columns df)"
      by (force simp: columns_def)
    show ?thesis
    proof (cases "getitem df col")
      case (Inl e)
      with True incols show ?thesis by simp
    next
      case (Inr s')
      with Cons.prems(2) have "s = s'" by (simp add: getitem_Inr_mem)
      with Cons.prems(3,4) obtain e where "astype_float s' = Inl e"
        using astype_float_fails by blast
      with True incols Inr show ?thesis by simp
    qed
  next
    case False
    with Cons.prems(1) have in_rest: "col \<in> set cols" by simp
    show ?thesis
    proof (cases "col' \<in> set (columns df)")
      case notin: False
      with Cons.IH [OF in_rest Cons.prems(2,3,4)] show ?thesis by simp
    next
      case isin: True
      show ?thesis
      proof (cases "getitem df col'")
        case (Inl e)
        with isin show ?thesis by simp
      next
        case (Inr s')
        show ?thesis
        proof (cases "astype_float s'")
          case (Inl e)
          with isin Inr show ?thesis by simp
        next
          case v: (Inr v)
          have "(col, s) \<in> set (setitem df col' v)"
            using False Cons.prems(2) by (simp add: setitem_keeps)
          from Cons.IH [OF in_rest this Cons.prems(3,4)] isin Inr v show ?thesis by simp
        qed
      qed
    qed
  qed
qed

lemma numeric_not_tds: "col \<in> set numeric_columns \<Longrightarrow> col \<noteq> ''tds_applicable''"
  by (auto simp: numeric_columns_def)

lemma dashboard_clean_fails:
  assumes "col \<in> set numeric_columns" and "(col, s) \<in> set (normalize_columns df0)"
    and "c \<in> set s" and "float_of_cell c = Inl e0"
  shows "\<exists>e. dashboard_clean to_dt upload_month df0 = Inl e"
proof (cases "coerce_tds_applicable (normalize_columns df0)")
  case (Inl e)
  then show ?thesis by (simp add: dashboard_clean_def)
next
  case (Inr df1)
  then obtain v where "df1 = setitem (normalize_columns df0) ''tds_applicable'' v"
    by (auto simp: coerce_tds_applicable_def split: sum.splits)
  with assms(1,2) have "(col, s) \<in> set df1"
    using numeric_not_tds [of col] by (simp add: setitem_keeps)
  from coerce_numeric_fails [OF assms(1) this assms(3,4)]
  obtain e where "coerce_numeric numeric_columns df1 = Inl e" ..
  with Inr show ?thesis by (simp add: dashboard_clean_def)
qed

text \<open>
  C6: in the dashboard the currency cell \<open>1,234.50\<close> parses to 1234.50 (the rational
  2469/2) and \<open>abc\<close> does not parse; whenever a cell of one of the currency columns
  \<open>amount\<close>, \<open>tds\<close>, \<open>payable\<close>, \<open>net_payable\<close> does not parse after its commas are
  removed, the upload fails as a whole: the store is left as it was (\<open>to_sql\<close> is not
  reached) and the only notice is the failure.
\<close>

theorem currency_parse_failure_is_fatal:
  "float_of_cell (Text ''1,234.50'') = Inr (Number (Finite (2469 / 2)))
   \<and> float_of_cell (Text ''abc'') = Inl ValueError
   \<and> (read_csv w file = Inr df0 \<and> upload_month \<noteq> [] \<and> col \<in> set numeric_columns
        \<and> (col, s) \<in> set (normalize_columns df0) \<and> c \<in> set s \<and> float_of_cell c = Inl e0
      \<longrightarrow> (\<exists>e. upload_form w (Some file) upload_month db = (db, [Upload_failed e])))"
proof (intro conjI impI)
  show "float_of_cell (Text ''1,234.50'') = Inr (Number (Finite (2469 / 2)))"
    by (rule float_1234_50)
  show "float_of_cell (Text ''abc'') = Inl ValueError"
    by (rule float_abc)
next
  assume a: "read_csv w file = Inr df0 \<and> upload_month \<noteq> [] \<and> col \<in> set numeric_columns
        \<and> (col, s) \<in> set (normalize_columns df0) \<and> c \<in> set s \<and> float_of_cell c = Inl e0"
  then obtain e where "dashboard_clean (to_datetime w) upload_month df0 = Inl e"
    using dashboard_clean_fails [of col s df0 c e0] by blast
  with a show "\<exists>e. upload_form w (Some file) upload_month db = (db, [Upload_failed e])"
    by (simp add: upload_form_def)
qed

lemma normalize_Amount: "normalize_header ''Amount'' = ''amount''"
  by code_simp

lemma normalize_TDS_Applicability: "normalize_header ''TDS Applicability'' = ''tds_applicable''"
  by code_simp

lemma normalize_Transaction_Date: "normalize_header ''Transaction Date'' = ''transaction_date''"
  by code_simp

lemmas frame_eval = normalize_columns_def normalize_Amount normalize_TDS_Applicability
  normalize_Transaction_Date columns_def nrows_def getitem_def setitem_def
  coerce_tds_applicable_def tds_table_def numeric_columns_def coerce_date_def tag_month_def
  dashboard_clean_def cli_clean_def upload_form_def cli_main_def world_of_def append_batch_def
  refuse_batch_def

lemma upload_abc:
  "upload_form
     (world_of [(''TDS Applicability'', [Text ''Yes'', Text ''No'']),
                (''Amount'', [Text ''12'', Text ''abc''])] append_batch)
     (Some ''payouts.csv'') ''2025-04'' []
   = ([], [Upload_failed ValueError])"
  by (simp add: frame_eval float_eval)

theorem currency_parse_failure_is_fatal_witness:
  "read_csv (world_of [(''TDS Applicability'', [Text ''Yes'', Text ''No'']),
                       (''Amount'', [Text ''12'', Text ''abc''])] append_batch) ''payouts.csv''
     = Inr [(''TDS Applicability'', [Text ''Yes'', Text ''No'']),
            (''Amount'', [Text ''12'', Text ''abc''])]
   \<and> ''amount'' \<in> set numeric_columns
   \<and> (''amount'', [Text ''12'', Text ''abc''])
       \<in> set (normalize_columns [(''TDS Applicability'', [Text ''Yes'', Text ''No'']),
                                  (''Amount'', [Text ''12'', Text ''abc''])])
   \<and> float_of_cell (Text ''abc'') = Inl ValueError
   \<and> (\<exists>e. upload_form
             (world_of [(''TDS Applicability'', [Text ''Yes'', Text ''No'']),
                        (''Amount'', [Text ''12'', Text ''abc''])] append_batch)
             (Some ''payouts.csv'') ''2025-04'' [] = ([], [Upload_failed e]))"
  using currency_parse_failure_is_fatal
    [of "world_of [(''TDS Applicability'', [Text ''Yes'', Text ''No'']),
                   (''Amount'', [Text ''12'', Text ''abc''])] append_batch" "''payouts.csv''"
      "[(''TDS Applicability'', [Text ''Yes'', Text ''No'']),
        (''Amount'', [Text ''12'', Text ''abc''])]" "''2025-04''" "''amount''"
      "[Text ''12'', Text ''abc'']" "Text ''abc''" "ValueError" "[]"]
  by (simp add: world_of_def numeric_columns_def normalize_columns_def normalize_Amount
      normalize_TDS_Applicability)

lemma getitem_absent: "c \<notin> set (columns df) \<Longrightarrow> getitem df c = Inl (KeyError c)"
proof -
  assume "c \<notin> set (columns df)"
  then have "filter (\<lambda>(label, _). label = c) df = []"
    by (force simp: columns_def filter_empty_conv)
  then show ?thesis by (simp add: getitem_def)
qed

text \<open>
  C10: when no header of the batch normalises to \<open>tds_applicable\<close>, the dashboard fails
  the whole upload with the \<open>KeyError\<close> of its unguarded column access and leaves the
  store as it was, whereas the command-line uploader skips the coercion, tags the month
  and hands the frame to \<open>to_sql\<close>: the batch is accepted, and stored when the write
  succeeds.
\<close>

theorem missing_tds_applicable_column:
  assumes "''tds_applicable'' \<notin> set (columns (normalize_columns raw))"
  shows "(read_csv w f = Inr raw \<and> upload_month \<noteq> []
          \<longrightarrow> upload_form w (Some f) upload_month db
               = (db, [Upload_failed (KeyError ''tds_applicable'')]))
     \<and> (url \<noteq> [] \<and> path_exists w' csv_file \<and> read_csv w' csv_file = Inr raw
          \<longrightarrow> cli_main w' (Some url) [prog, csv_file, month_tag] db'
               = (let df = tag_month month_tag (normalize_columns raw) in
                  case to_sql w' df db' of
                    Inr db'' \<Rightarrow>
                      \<lparr>exit_code = 0, printed = [Uploaded_from (nrows df) csv_file month_tag],
                       store = db''\<rparr>
                  | Inl e \<Rightarrow>
                      \<lparr>exit_code = 0, printed = [Upload_failed_with e], store = db'\<rparr>))"
proof (intro conjI impI)
  assume "read_csv w f = Inr raw \<and> upload_month \<noteq> []"
  moreover have "dashboard_clean (to_datetime w) upload_month raw = Inl (KeyError ''tds_applicable'')"
    using getitem_absent [OF assms]
    by (simp add: dashboard_clean_def coerce_tds_applicable_def)
  ultimately show "upload_form w (Some f) upload_month db
      = (db, [Upload_failed (KeyError ''tds_applicable'')])"
    by (simp add: upload_form_def)
next
  assume a: "url \<noteq> [] \<and> path_exists w' csv_file \<and> read_csv w' csv_file = Inr raw"
  have "cli_clean month_tag raw = Inr (tag_month month_tag (normalize_columns raw))"
    using assms by (simp add: cli_clean_def)
  with a show "cli_main w' (Some url) [prog, csv_file, month_tag] db'
      = (let df = tag_month month_tag (normalize_columns raw) in
         case to_sql w' df db' of
           Inr db'' \<Rightarrow>
             \<lparr>exit_code = 0, printed = [Uploaded_from (nrows df) csv_file month_tag],
              store = db''\<rparr>
         | Inl e \<Rightarrow>
             \<lparr>exit_code = 0, printed = [Upload_failed_with e], store = db'\<rparr>)"
    by (simp add: cli_main_def Let_def split: sum.splits)
qed

theorem missing_tds_applicable_column_witness:
  "''tds_applicable'' \<notin> set (columns (normalize_columns [(''Amount'', [Text ''1,000''])]))
   \<and> upload_form (world_of [(''Amount'', [Text ''1,000''])] append_batch)
        (Some ''payouts.csv'') ''2025-04'' []
      = ([], [Upload_failed (KeyError ''tds_applicable'')])
   \<and> cli_main (world_of [(''Amount'', [Text ''1,000''])] append_batch)
        (Some ''postgresql://db'') [''upload_payouts.py'', ''payouts.csv'', ''2025-04''] []
      = \<lparr>exit_code = 0, printed = [Uploaded_from 1 ''payouts.csv'' ''2025-04''],
         store = [[(''amount'', [Text ''1,000'']), (''month'', [Text ''2025-04''])]]\<rparr>"
  using missing_tds_applicable_column
    [where raw = "[(''Amount'', [Text ''1,000''])]"
      and w = "world_of [(''Amount'', [Text ''1,000''])] append_batch"
      and f = "''payouts.csv''" and upload_month = "''2025-04''" and db = "[]"
      and url = "''postgresql://db''"
      and w' = "world_of [(''Amount'', [Text ''1,000''])] append_batch"
      and csv_file = "''payouts.csv''" and prog = "''upload_payouts.py''"
      and month_tag = "''2025-04''" and db' = "[]"]
  by (simp add: world_of_def append_batch_def normalize_columns_def normalize_Amount
      columns_def tag_month_def nrows_def setitem_def)

section \<open>The two entry points compared\<close>

lemma bool_Yes: "bool_of_cell (Text ''Yes'') = Flag True"
  by code_simp

text \<open>
  C1 says that the command-line uploader applies the same type coercer as the dashboard.
  Run on the same batch, the two differ: the uploader hands the amount \<open>1,234.50\<close> and
  the transaction date to the store as the text read from the file, where the dashboard
  hands over the number 1234.50 and the date. The uploader has no currency and no date
  step at all.
\<close>

theorem cli_skips_currency_and_date_coercion:
  "cli_clean ''2025-04''
     [(''TDS Applicability'', [Text ''Yes'']), (''Amount'', [Text ''1,234.50'']),
      (''Transaction Date'', [Text ''05/04/2025''])]
   = Inr [(''tds_applicable'', [Flag True]), (''amount'', [Text ''1,234.50'']),
          (''transaction_date'', [Text ''05/04/2025'']), (''month'', [Text ''2025-04''])]
   \<and> dashboard_clean (\<lambda>s. if s = [Text ''05/04/2025''] then Some [Date 2025 4 5] else None)
       ''2025-04''
       [(''TDS Applicability'', [Text ''Yes'']), (''Amount'', [Text ''1,234.50'']),
        (''Transaction Date'', [Text ''05/04/2025''])]
     = Inr ([(''tds_applicable'', [Flag True]), (''amount'', [Number (Finite (2469 / 2))]),
             (''transaction_date'', [Date 2025 4 5]), (''month'', [Text ''2025-04''])], [])"
  by (simp add: frame_eval float_1234_50 bool_Yes del: float_of_cell.simps bool_of_cell.simps)

text \<open>
  C2 says that a failure of the store write ends the command-line uploader with a nonzero
  exit code. With a valid configuration, three arguments, an existing file and a store
  that refuses the write, the uploader prints the failure and ends with exit code 0:
  the \<open>except\<close> branch has no \<open>sys.exit(1)\<close>.
\<close>

theorem cli_exits_zero_when_store_write_fails:
  "cli_main
     (world_of [(''TDS Applicability'', [Text ''Yes'']), (''Amount'', [Number (Finite 1000)])]
        refuse_batch)
     (Some ''postgresql://db'') [''upload_payouts.py'', ''payouts.csv'', ''2025-04''] []
   = \<lparr>exit_code = 0, printed = [Upload_failed_with (SinkError ''connection refused'')],
      store = []\<rparr>"
  by (simp add: frame_eval bool_Yes del: bool_of_cell.simps)

text \<open>
  C9 says that both entry points validate the month tag as non-empty. The command-line
  uploader checks the number of arguments only: with the empty string as its month tag it
  stores the batch with an empty \<open>month\<close> in every record, where the dashboard refuses
  the same submission.
\<close>

theorem cli_accepts_empty_month_tag:
  "cli_main
     (world_of [(''TDS Applicability'', [Text ''Yes'']), (''Amount'', [Number (Finite 1000)])]
        append_batch)
     (Some ''postgresql://db'') [''upload_payouts.py'', ''payouts.csv'', []] []
   = \<lparr>exit_code = 0, printed = [Uploaded_from 1 ''payouts.csv'' []],
      store = [[(''tds_applicable'', [Flag True]), (''amount'', [Number (Finite 1000)]),
                (''month'', [Text []])]]\<rparr>
   \<and> upload_form
       (world_of [(''TDS Applicability'', [Text ''Yes'']), (''Amount'', [Number (Finite 1000)])]
          append_batch)
       (Some ''payouts.csv'') [] []
     = ([], [Please_upload])"
  by (simp add: frame_eval bool_Yes del: bool_of_cell.simps)

text \<open>
  The exit code of the uploader is 0 exactly when the script gets as far as \<open>to_sql\<close>,
  whatever \<open>to_sql\<close> does.
\<close>

lemma cli_exit_code_zero_iff:
  "exit_code (cli_main w url argv db) = 0 \<longleftrightarrow>
     url \<noteq> None \<and> url \<noteq> Some [] \<and> length argv = 3 \<and> path_exists w (argv ! 1)
     \<and> (\<exists>raw df. read_csv w (argv ! 1) = Inr raw \<and> cli_clean (argv ! 2) raw = Inr df)"
  by (auto simp: cli_main_def Let_def split: sum.splits)

text \<open>
  Both entry points end with the month tag in every row of every column labelled
  \<open>month\<close>, and the dashboard refuses an empty tag.
\<close>

lemma setitem_label:
  "(c, s) \<in> set (setitem df c v) \<Longrightarrow> s = v"
proof (cases "c \<in> set (columns df)")
  case True
  assume "(c, s) \<in> set (setitem df c v)"
  with True show ?thesis
    by (auto simp: setitem_def split: if_splits)
next
  case False
  then have "(c, s) \<notin> set df"
    by (force simp: columns_def)
  moreover assume "(c, s) \<in> set (setitem df c v)"
  ultimately show ?thesis
    using False by (simp add: setitem_def)
qed

lemma setitem_has_label: "c \<in> set (columns (setitem df c v))"
  by (force simp: setitem_def columns_def)

lemma tag_month_uniform:
  "''month'' \<in> set (columns (tag_month m df))
   \<and> (\<forall>s. (''month'', s) \<in> set (tag_month m df) \<longrightarrow> s = replicate (nrows df) (Text m))"
  using setitem_label [of "''month''" _ df] setitem_has_label [of "''month''" df]
  by (simp add: tag_month_def)

lemma dashboard_clean_tags_month:
  "dashboard_clean to_dt m raw = Inr (df, ws) \<Longrightarrow> \<exists>df'. df = tag_month m df'"
  by (auto simp: dashboard_clean_def Let_def split: sum.splits prod.splits)

lemma cli_clean_tags_month:
  "cli_clean m raw = Inr df \<Longrightarrow> \<exists>df'. df = tag_month m df'"
  by (auto simp: cli_clean_def Let_def split: sum.splits if_splits)

lemma upload_form_empty_month: "upload_form w uploaded [] db = (db, [Please_upload])"
  by (simp add: upload_form_def split: option.splits)

end
